theory Spec2Isabelle
  imports Main
begin

section \<open>Struct types as the templates of FEnhancedJsonConverter see them\<close>

text \<open>
  Every operation of \<^verbatim>\<open>ChrisUE::FEnhancedJsonConverter\<close> is a template over the struct
  type \<^verbatim>\<open>TStruct\<close>. A struct type is modelled by what the templates use of it:
  \<^item> its member declarations, by name. The detectors \<^verbatim>\<open>THasPostJsonImport\<close> and
    \<^verbatim>\<open>THasPostJsonExport\<close> look at nothing else;
  \<^item> what the call expressions \<^verbatim>\<open>Struct.PostJsonImport(JsonObject)\<close> and
    \<^verbatim>\<open>Struct.PostJsonExport(JsonObject)\<close> do where \<^verbatim>\<open>if constexpr\<close> instantiates
    them. The import hook is a non-const member returning \<^verbatim>\<open>void\<close>: it maps the struct
    to the struct it leaves behind. The export hook is a const member: it reads the struct
    and returns a \<^verbatim>\<open>TSharedPtr<FJsonObject>\<close>.

  Where a detector reports a member that cannot be called so, the helper does not compile;
  the model then still applies the function given for the call.

  A \<^verbatim>\<open>TSharedPtr<FJsonObject>\<close> is a \<open>'j option\<close>: \<open>None\<close> is the null pointer, for which
  \<^verbatim>\<open>IsValid()\<close> is false. The type \<open>'s\<close> is the type of the values of the struct.
\<close>

datatype cpp_type =
    T_void | T_int | T_FString | T_TArray cpp_type | T_JsonPtr | T_ConstJsonPtrRef

text \<open>
  The types are \<^verbatim>\<open>void\<close>, \<^verbatim>\<open>int\<close>, \<^verbatim>\<open>FString\<close>, \<^verbatim>\<open>TArray<...>\<close>,
  \<^verbatim>\<open>TSharedPtr<FJsonObject>\<close> and \<^verbatim>\<open>const TSharedPtr<FJsonObject>&\<close>.
  A member declaration is a data member of some type, or a member function with its return
  type, its parameter types and its \<^verbatim>\<open>const\<close> qualifier.
\<close>

datatype member_decl =
    DataMember cpp_type
  | MemberFunction cpp_type "cpp_type list" bool

record ('s, 'j) struct_type =
  members :: "(string \<times> member_decl) list"
  PostJsonImport :: "'j option \<Rightarrow> 's \<Rightarrow> 's"
  PostJsonExport :: "'s \<Rightarrow> 'j option \<Rightarrow> 'j option"

text \<open>
  The signatures that the comments above the two detectors call expected:
  \<^verbatim>\<open>void PostJsonImport(const TSharedPtr<FJsonObject>& JsonObject)\<close> and
  \<^verbatim>\<open>TSharedPtr<FJsonObject> PostJsonExport(TSharedPtr<FJsonObject> JsonObject) const\<close>.
\<close>

definition import_signature :: member_decl where
  "import_signature = MemberFunction T_void [T_ConstJsonPtrRef] False"

definition export_signature :: member_decl where
  "export_signature = MemberFunction T_JsonPtr [T_JsonPtr] True"

subsection \<open>Type trait detectors\<close>

text \<open>
  \<^verbatim>\<open>template<typename C> static YesType& Test(decltype(&C::PostJsonImport));\<close>
  \<^verbatim>\<open>template<typename C> static NoType& Test(...);\<close>
  \<^verbatim>\<open>enum { Value = sizeof(Test<T>(0)) == sizeof(YesType) };\<close>

  The first overload takes part in overload resolution exactly when the expression
  \<^verbatim>\<open>&C::PostJsonImport\<close> is well formed, and is then preferred to the ellipsis. The
  expression names a member and nothing more: it is well formed when the name denotes one
  member of the type (a data member or a member function, of any type), and ill formed
  when the type has no member of that name or when the name is overloaded, since there is
  no target type to choose an overload.
\<close>

definition declarations :: "string \<Rightarrow> ('s, 'j) struct_type \<Rightarrow> member_decl list" where
  "declarations n T = map snd (filter (\<lambda>d. fst d = n) (members T))"

definition address_of_member :: "string \<Rightarrow> ('s, 'j) struct_type \<Rightarrow> member_decl option" where
  "address_of_member n T = (case declarations n T of [d] \<Rightarrow> Some d | _ \<Rightarrow> None)"

definition THasPostJsonImport :: "('s, 'j) struct_type \<Rightarrow> bool" where
  "THasPostJsonImport T \<longleftrightarrow> address_of_member ''PostJsonImport'' T \<noteq> None"

definition THasPostJsonExport :: "('s, 'j) struct_type \<Rightarrow> bool" where
  "THasPostJsonExport T \<longleftrightarrow> address_of_member ''PostJsonExport'' T \<noteq> None"

section \<open>The external collaborators\<close>

text \<open>
  The converter calls four functions of the engine, which are not part of this repository
  and are parameters of the model:
  \<^item> \<^verbatim>\<open>FJsonObjectConverter::JsonObjectToUStruct<TStruct>(JsonObject.ToSharedRef(), &OutStruct)\<close>
    writes into the struct and returns a flag;
  \<^item> \<^verbatim>\<open>FJsonObjectConverter::UStructToJsonObject(InStruct)\<close> returns a pointer that may
    be null;
  \<^item> \<^verbatim>\<open>FJsonSerializer::Deserialize(Reader, JsonObject)\<close> reads the text of the reader,
    sets the pointer and returns a flag;
  \<^item> \<^verbatim>\<open>FJsonSerializer::Serialize(JsonObject.ToSharedRef(), Writer)\<close> writes into the
    string the writer was created on (the function takes what the string held before) and
    returns a flag.
\<close>

record ('s, 'j) collaborators =
  Converter_JsonObjectToUStruct :: "'j \<Rightarrow> 's \<Rightarrow> bool \<times> 's"
  Converter_UStructToJsonObject :: "'s \<Rightarrow> 'j option"
  Serializer_Deserialize :: "string \<Rightarrow> bool \<times> 'j option"
  Serializer_Serialize :: "'j \<Rightarrow> string \<Rightarrow> bool \<times> string"

text \<open>
  Whether a hook or a collaborator is invoked is an effect. Each operation returns, beside
  its result, the calls it made, in order and with their arguments.
\<close>

datatype ('s, 'j) call =
    Call_Converter_JsonObjectToUStruct 'j 's
  | Call_PostJsonImport "'j option" 's
  | Call_Converter_UStructToJsonObject 's
  | Call_PostJsonExport 's "'j option"
  | Call_Deserialize string
  | Call_Serialize 'j string

fun is_import_hook_call :: "('s, 'j) call \<Rightarrow> bool" where
  "is_import_hook_call (Call_PostJsonImport j s) = True"
| "is_import_hook_call _ = False"

fun is_export_hook_call :: "('s, 'j) call \<Rightarrow> bool" where
  "is_export_hook_call (Call_PostJsonExport s j) = True"
| "is_export_hook_call _ = False"

fun is_generic_import_call :: "('s, 'j) call \<Rightarrow> bool" where
  "is_generic_import_call (Call_Converter_JsonObjectToUStruct j s) = True"
| "is_generic_import_call _ = False"

fun is_serialize_call :: "('s, 'j) call \<Rightarrow> bool" where
  "is_serialize_call (Call_Serialize j t) = True"
| "is_serialize_call _ = False"

section \<open>Internal helper functions\<close>

definition CallPostJsonImportIfExists ::
  "('s, 'j) struct_type \<Rightarrow> 's \<Rightarrow> 'j option \<Rightarrow> 's \<times> ('s, 'j) call list" where
  "CallPostJsonImportIfExists T Struct JsonObject =
     (if THasPostJsonImport T
      then (PostJsonImport T JsonObject Struct, [Call_PostJsonImport JsonObject Struct])
      else (Struct, []))"

definition CallPostJsonExportIfExists ::
  "('s, 'j) struct_type \<Rightarrow> 's \<Rightarrow> 'j option \<Rightarrow> 'j option \<times> ('s, 'j) call list" where
  "CallPostJsonExportIfExists T Struct JsonObject =
     (if THasPostJsonExport T
      then (PostJsonExport T Struct JsonObject, [Call_PostJsonExport Struct JsonObject])
      else (JsonObject, []))"

section \<open>Public API\<close>

text \<open>
  The decoders return the flag, the struct as the call leaves \<^verbatim>\<open>OutStruct\<close>, and the
  calls made. The generic converter writes into \<^verbatim>\<open>OutStruct\<close> itself, so the struct it
  leaves is the result also when it reports failure.
\<close>

definition JsonObjectToUStruct ::
  "('s, 'j) struct_type \<Rightarrow> ('s, 'j) collaborators \<Rightarrow> 'j option \<Rightarrow> 's
     \<Rightarrow> bool \<times> 's \<times> ('s, 'j) call list" where
  "JsonObjectToUStruct T E JsonObject OutStruct =
     (case JsonObject of
        None \<Rightarrow> (False, OutStruct, [])
      | Some j \<Rightarrow>
          (case Converter_JsonObjectToUStruct E j OutStruct of
             (ok, Mapped) \<Rightarrow>
               if \<not> ok
               then (False, Mapped, [Call_Converter_JsonObjectToUStruct j OutStruct])
               else (case CallPostJsonImportIfExists T Mapped JsonObject of
                       (Final, calls) \<Rightarrow>
                         (True, Final, Call_Converter_JsonObjectToUStruct j OutStruct # calls))))"

definition UStructToJsonObject ::
  "('s, 'j) struct_type \<Rightarrow> ('s, 'j) collaborators \<Rightarrow> 's
     \<Rightarrow> 'j option \<times> ('s, 'j) call list" where
  "UStructToJsonObject T E InStruct =
     (case Converter_UStructToJsonObject E InStruct of
        None \<Rightarrow> (None, [Call_Converter_UStructToJsonObject InStruct])
      | Some j \<Rightarrow>
          (case CallPostJsonExportIfExists T InStruct (Some j) of
             (Result, calls) \<Rightarrow> (Result, Call_Converter_UStructToJsonObject InStruct # calls)))"

definition JsonStringToUStruct ::
  "('s, 'j) struct_type \<Rightarrow> ('s, 'j) collaborators \<Rightarrow> string \<Rightarrow> 's
     \<Rightarrow> bool \<times> 's \<times> ('s, 'j) call list" where
  "JsonStringToUStruct T E JsonString OutStruct =
     (case Serializer_Deserialize E JsonString of
        (ok, JsonObject) \<Rightarrow>
          if \<not> ok \<or> JsonObject = None
          then (False, OutStruct, [Call_Deserialize JsonString])
          else (case JsonObjectToUStruct T E JsonObject OutStruct of
                  (Result, Final, calls) \<Rightarrow> (Result, Final, Call_Deserialize JsonString # calls)))"

text \<open>
  The encoder to text returns the flag, the string as the call leaves \<^verbatim>\<open>OutJsonString\<close>,
  and the calls made.
\<close>

definition UStructToJsonString ::
  "('s, 'j) struct_type \<Rightarrow> ('s, 'j) collaborators \<Rightarrow> 's \<Rightarrow> string
     \<Rightarrow> bool \<times> string \<times> ('s, 'j) call list" where
  "UStructToJsonString T E InStruct OutJsonString =
     (case UStructToJsonObject T E InStruct of
        (None, calls) \<Rightarrow> (False, OutJsonString, calls)
      | (Some j, calls) \<Rightarrow>
          (case Serializer_Serialize E j OutJsonString of
             (ok, Text) \<Rightarrow> (ok, Text, calls @ [Call_Serialize j OutJsonString])))"

section \<open>Properties of hooks and collaborators that the round trip speaks of\<close>

text \<open>
  The fields of a struct are the declared ones, which the generic converter maps, and the
  ones the hooks manage. The declared ones are given by a projection \<open>declared\<close>.

  The import hook is the exact inverse of the export hook with respect to the fields the
  hooks manage: both hooks are detected, and in a struct that carries the declared fields
  of \<open>x\<close> the import hook, given what the export hook returned for \<open>x\<close>, restores \<open>x\<close>.
\<close>

definition hooks_inverse :: "('s, 'j) struct_type \<Rightarrow> ('s \<Rightarrow> 'd) \<Rightarrow> bool" where
  "hooks_inverse T declared \<longleftrightarrow>
     THasPostJsonImport T \<and> THasPostJsonExport T \<and>
     (\<forall>x j j' s. PostJsonExport T x (Some j) = Some j' \<longrightarrow> declared s = declared x
        \<longrightarrow> PostJsonImport T (Some j') s = x)"

text \<open>The text parser reads back the object from which the text writer wrote a text.\<close>

definition codec_roundtrip :: "('s, 'j) collaborators \<Rightarrow> bool" where
  "codec_roundtrip E \<longleftrightarrow>
     (\<forall>j out text. Serializer_Serialize E j out = (True, text)
        \<longrightarrow> Serializer_Deserialize E text = (True, Some j))"

text \<open>
  The generic converter, given the object it produced from \<open>x\<close>, succeeds and leaves a
  struct with the declared fields of \<open>x\<close>.
\<close>

definition mapper_roundtrip :: "('s, 'j) collaborators \<Rightarrow> ('s \<Rightarrow> 'd) \<Rightarrow> bool" where
  "mapper_roundtrip E declared \<longleftrightarrow>
     (\<forall>x j s. Converter_UStructToJsonObject E x = Some j
        \<longrightarrow> fst (Converter_JsonObjectToUStruct E j s)
          \<and> declared (snd (Converter_JsonObjectToUStruct E j s)) = declared x)"

text \<open>
  The same of the object that the export hook returns for the generic object: the export
  hook keeps what the generic converter needs to restore the declared fields.
\<close>

definition export_keeps_declared ::
  "('s, 'j) struct_type \<Rightarrow> ('s, 'j) collaborators \<Rightarrow> ('s \<Rightarrow> 'd) \<Rightarrow> bool" where
  "export_keeps_declared T E declared \<longleftrightarrow>
     (\<forall>x j j' s. Converter_UStructToJsonObject E x = Some j
        \<longrightarrow> PostJsonExport T x (Some j) = Some j'
        \<longrightarrow> fst (Converter_JsonObjectToUStruct E j' s)
          \<and> declared (snd (Converter_JsonObjectToUStruct E j' s)) = declared x)"

section \<open>A struct type with hooks: Item\<close>

text \<open>
  The scenario of the specification: a struct \<^verbatim>\<open>Item\<close> with the declared field
  \<^verbatim>\<open>Name\<close> and the field \<^verbatim>\<open>Tags\<close>, which only the hooks handle. JSON objects are
  association lists from keys to values.
\<close>

datatype json_value = Json_String string | Json_Number int | Json_Array "string list"

type_synonym json_object = "(string \<times> json_value) list"

record item =
  Name :: string
  Tags :: "string list"

definition Item_PostJsonImport :: "json_object option \<Rightarrow> item \<Rightarrow> item" where
  "Item_PostJsonImport JsonObject Struct =
     (case JsonObject of
        None \<Rightarrow> Struct
      | Some j \<Rightarrow> (case map_of j ''tags'' of
                    Some (Json_Array ts) \<Rightarrow> Struct\<lparr>Tags := ts\<rparr>
                  | _ \<Rightarrow> Struct))"

definition Item_PostJsonExport :: "item \<Rightarrow> json_object option \<Rightarrow> json_object option" where
  "Item_PostJsonExport Struct JsonObject =
     (case JsonObject of
        None \<Rightarrow> None
      | Some j \<Rightarrow> Some ((''tags'', Json_Array (Tags Struct)) # j))"

definition Item_members :: "(string \<times> member_decl) list" where
  "Item_members =
     [(''Name'', DataMember T_FString), (''Tags'', DataMember (T_TArray T_FString)),
      (''PostJsonImport'', import_signature), (''PostJsonExport'', export_signature)]"

definition Item :: "(item, json_object) struct_type" where
  "Item = \<lparr>members = Item_members,
            PostJsonImport = Item_PostJsonImport,
            PostJsonExport = Item_PostJsonExport\<rparr>"

text \<open>The same struct without the hooks.\<close>

definition PlainItem :: "(item, json_object) struct_type" where
  "PlainItem = \<lparr>members = [(''Name'', DataMember T_FString),
                            (''Tags'', DataMember (T_TArray T_FString))],
                 PostJsonImport = (\<lambda>JsonObject Struct. Struct),
                 PostJsonExport = (\<lambda>Struct JsonObject. JsonObject)\<rparr>"

text \<open>An export hook that returns a new object with the managed field alone.\<close>

definition FreshExportItem :: "(item, json_object) struct_type" where
  "FreshExportItem =
     Item\<lparr>PostJsonExport := (\<lambda>Struct JsonObject. Some [(''tags'', Json_Array (Tags Struct))])\<rparr>"

text \<open>An export hook that returns the null pointer.\<close>

definition NullExportItem :: "(item, json_object) struct_type" where
  "NullExportItem = Item\<lparr>PostJsonExport := (\<lambda>Struct JsonObject. None)\<rparr>"

text \<open>
  A struct whose members of the conventional names are no hooks: a data member
  \<^verbatim>\<open>int PostJsonImport;\<close> and a member function \<^verbatim>\<open>void PostJsonExport(int);\<close>.
\<close>

definition Lookalike :: "(item, json_object) struct_type" where
  "Lookalike = \<lparr>members = [(''PostJsonImport'', DataMember T_int),
                            (''PostJsonExport'', MemberFunction T_void [T_int] False)],
                 PostJsonImport = (\<lambda>JsonObject Struct. Struct),
                 PostJsonExport = (\<lambda>Struct JsonObject. JsonObject)\<rparr>"

text \<open>A struct that declares the two hooks, with their expected signatures, and nothing else.\<close>

definition HooksOnly :: "(item, json_object) struct_type" where
  "HooksOnly = \<lparr>members = [(''PostJsonImport'', import_signature),
                            (''PostJsonExport'', export_signature)],
                 PostJsonImport = Item_PostJsonImport,
                 PostJsonExport = Item_PostJsonExport\<rparr>"

text \<open>
  A generic converter for the declared field: a key \<^verbatim>\<open>name\<close> with a string sets the
  field, with another value it is a type mismatch, and without the key the field is left
  as it is.
\<close>

definition Item_JsonObjectToUStruct :: "json_object \<Rightarrow> item \<Rightarrow> bool \<times> item" where
  "Item_JsonObjectToUStruct j Struct =
     (case map_of j ''name'' of
        None \<Rightarrow> (True, Struct)
      | Some (Json_String n) \<Rightarrow> (True, Struct\<lparr>Name := n\<rparr>)
      | Some _ \<Rightarrow> (False, Struct))"

definition Item_UStructToJsonObject :: "item \<Rightarrow> json_object option" where
  "Item_UStructToJsonObject Struct = Some [(''name'', Json_String (Name Struct))]"

text \<open>A text codec that knows the documents of the scenario and fails on everything else.\<close>

definition documents :: "(json_object \<times> string) list" where
  \<open>documents =
     [([(''tags'', Json_Array [''x'', ''y'']), (''name'', Json_String ''a'')],
       ''{"name":"a","tags":["x","y"]}''),
      ([(''tags'', Json_Array [''x'', ''y''])], ''{"tags":["x","y"]}''),
      ([(''name'', Json_String ''a'')], ''{"name":"a"}''),
      ([(''name'', Json_Number 123)], ''{"name":123}'')]\<close>

definition Table_Serialize :: "json_object \<Rightarrow> string \<Rightarrow> bool \<times> string" where
  "Table_Serialize j out =
     (case map_of documents j of None \<Rightarrow> (False, out) | Some text \<Rightarrow> (True, text))"

definition Table_Deserialize :: "string \<Rightarrow> bool \<times> json_object option" where
  "Table_Deserialize text =
     (case map_of (map (\<lambda>(j, t). (t, j)) documents) text of
        None \<Rightarrow> (False, None)
      | Some j \<Rightarrow> (True, Some j))"

definition ItemEngine :: "(item, json_object) collaborators" where
  "ItemEngine = \<lparr>Converter_JsonObjectToUStruct = Item_JsonObjectToUStruct,
                  Converter_UStructToJsonObject = Item_UStructToJsonObject,
                  Serializer_Deserialize = Table_Deserialize,
                  Serializer_Serialize = Table_Serialize\<rparr>"

text \<open>The same with a generic converter that cannot produce an object.\<close>

definition BrokenEngine :: "(item, json_object) collaborators" where
  "BrokenEngine = ItemEngine\<lparr>Converter_UStructToJsonObject := (\<lambda>Struct. None)\<rparr>"

definition item_a :: item where
  "item_a = \<lparr>Name = ''a'', Tags = [''x'', ''y'']\<rparr>"

definition item_default :: item where
  "item_default = \<lparr>Name = [], Tags = []\<rparr>"


section \<open>Facts shared by the proofs\<close>

lemmas detector_defs =
  THasPostJsonImport_def THasPostJsonExport_def address_of_member_def declarations_def

lemmas item_type_defs =
  Item_def Item_members_def PlainItem_def FreshExportItem_def NullExportItem_def
  Lookalike_def HooksOnly_def import_signature_def export_signature_def
  Item_PostJsonImport_def Item_PostJsonExport_def

lemmas item_engine_defs =
  ItemEngine_def BrokenEngine_def Item_JsonObjectToUStruct_def Item_UStructToJsonObject_def
  Table_Serialize_def Table_Deserialize_def documents_def item_a_def item_default_def

lemma Item_detected: "THasPostJsonImport Item" "THasPostJsonExport Item"
  by (simp_all add: detector_defs item_type_defs)

lemma FreshExportItem_detected:
  "THasPostJsonImport FreshExportItem" "THasPostJsonExport FreshExportItem"
  by (simp_all add: detector_defs item_type_defs)

lemma NullExportItem_detected:
  "THasPostJsonImport NullExportItem" "THasPostJsonExport NullExportItem"
  by (simp_all add: detector_defs item_type_defs)

lemma PlainItem_not_detected:
  "\<not> THasPostJsonImport PlainItem" "\<not> THasPostJsonExport PlainItem"
  by (simp_all add: detector_defs item_type_defs)



lemma UStructToJsonObject_eq:
  "UStructToJsonObject T E x =
     (case Converter_UStructToJsonObject E x of
        None \<Rightarrow> (None, [Call_Converter_UStructToJsonObject x])
      | Some j \<Rightarrow>
          if THasPostJsonExport T
          then (PostJsonExport T x (Some j),
                [Call_Converter_UStructToJsonObject x, Call_PostJsonExport x (Some j)])
          else (Some j, [Call_Converter_UStructToJsonObject x]))"
  by (simp add: UStructToJsonObject_def CallPostJsonExportIfExists_def split: option.splits)

lemma UStructToJsonObject_never_serializes:
  "filter is_serialize_call (snd (UStructToJsonObject T E x)) = []"
  by (simp add: UStructToJsonObject_eq split: option.splits)

lemma Item_hooks_inverse: "hooks_inverse Item Name"
  by (auto simp: hooks_inverse_def Item_detected) (auto simp: item_type_defs)

lemma FreshExportItem_hooks_inverse: "hooks_inverse FreshExportItem Name"
  by (auto simp: hooks_inverse_def FreshExportItem_detected) (auto simp: item_type_defs)

lemma ItemEngine_codec_roundtrip: "codec_roundtrip ItemEngine"
  by (auto simp: codec_roundtrip_def item_engine_defs split: option.splits if_splits)

lemma ItemEngine_mapper_roundtrip: "mapper_roundtrip ItemEngine Name"
  by (auto simp: mapper_roundtrip_def item_engine_defs)

lemma Item_export_keeps_declared: "export_keeps_declared Item ItemEngine Name"
  by (auto simp: export_keeps_declared_def item_engine_defs item_type_defs)

lemma encode_item_a:
  \<open>UStructToJsonString Item ItemEngine item_a [] =
     (True, ''{"name":"a","tags":["x","y"]}'',
      [Call_Converter_UStructToJsonObject item_a,
       Call_PostJsonExport item_a (Some [(''name'', Json_String ''a'')]),
       Call_Serialize [(''tags'', Json_Array [''x'', ''y'']), (''name'', Json_String ''a'')] []])\<close>
  by (simp add: UStructToJsonString_def UStructToJsonObject_eq detector_defs
        item_engine_defs item_type_defs)

section \<open>Decoding from an object\<close>

text \<open>
  C1: for every struct type and every structured value, if the generic converter called by
  \<^verbatim>\<open>JsonObjectToUStruct\<close> reports failure, the operation returns false and
  \<^verbatim>\<open>PostJsonImport\<close> is not invoked: the one call made is the call of the generic
  converter.
\<close>

theorem mapper_failure_skips_import_hook:
  assumes "Converter_JsonObjectToUStruct E j OutStruct = (False, Mapped)"
  shows "JsonObjectToUStruct T E (Some j) OutStruct =
           (False, Mapped, [Call_Converter_JsonObjectToUStruct j OutStruct])
         \<and> filter is_import_hook_call (snd (snd (JsonObjectToUStruct T E (Some j) OutStruct))) = []"
  using assms by (simp add: JsonObjectToUStruct_def)

theorem mapper_failure_skips_import_hook_witness:
  "THasPostJsonImport Item
   \<and> Converter_JsonObjectToUStruct ItemEngine [(''name'', Json_Number 123)] item_default
       = (False, item_default)
   \<and> JsonObjectToUStruct Item ItemEngine (Some [(''name'', Json_Number 123)]) item_default
       = (False, item_default,
          [Call_Converter_JsonObjectToUStruct [(''name'', Json_Number 123)] item_default])"
proof -
  have h: "Converter_JsonObjectToUStruct ItemEngine [(''name'', Json_Number 123)] item_default
             = (False, item_default)"
    by (simp add: item_engine_defs)
  from mapper_failure_skips_import_hook [OF h, of Item] show ?thesis
    using h by (simp add: Item_detected)
qed

text \<open>
  C6: for every struct type with a detected import hook, when \<^verbatim>\<open>JsonObjectToUStruct\<close>
  succeeds it has made two calls: first the generic converter on the object and the
  struct given, then \<^verbatim>\<open>PostJsonImport\<close>, once, with the pointer that was given to the
  operation and on the struct as the generic converter left it. The struct returned is the
  one the hook leaves.
\<close>

theorem import_hook_called_once_after_mapping:
  assumes "THasPostJsonImport T"
    and "JsonObjectToUStruct T E JsonObject OutStruct = (True, Final, calls)"
  shows "\<exists>j Mapped. JsonObject = Some j
           \<and> Converter_JsonObjectToUStruct E j OutStruct = (True, Mapped)
           \<and> calls = [Call_Converter_JsonObjectToUStruct j OutStruct,
                       Call_PostJsonImport JsonObject Mapped]
           \<and> Final = PostJsonImport T JsonObject Mapped
           \<and> length (filter is_import_hook_call calls) = 1"
  using assms
  by (auto simp: JsonObjectToUStruct_def CallPostJsonImportIfExists_def
           split: option.splits prod.splits if_splits)

theorem import_hook_called_once_after_mapping_witness:
  "THasPostJsonImport Item
   \<and> JsonObjectToUStruct Item ItemEngine
        (Some [(''tags'', Json_Array [''x'', ''y'']), (''name'', Json_String ''a'')]) item_default
       = (True, item_a,
          [Call_Converter_JsonObjectToUStruct
             [(''tags'', Json_Array [''x'', ''y'']), (''name'', Json_String ''a'')] item_default,
           Call_PostJsonImport
             (Some [(''tags'', Json_Array [''x'', ''y'']), (''name'', Json_String ''a'')])
             \<lparr>Name = ''a'', Tags = []\<rparr>])
   \<and> Converter_JsonObjectToUStruct ItemEngine
        [(''tags'', Json_Array [''x'', ''y'']), (''name'', Json_String ''a'')] item_default
       = (True, \<lparr>Name = ''a'', Tags = []\<rparr>)"
proof -
  have run: "JsonObjectToUStruct Item ItemEngine
        (Some [(''tags'', Json_Array [''x'', ''y'']), (''name'', Json_String ''a'')]) item_default
       = (True, item_a,
          [Call_Converter_JsonObjectToUStruct
             [(''tags'', Json_Array [''x'', ''y'']), (''name'', Json_String ''a'')] item_default,
           Call_PostJsonImport
             (Some [(''tags'', Json_Array [''x'', ''y'']), (''name'', Json_String ''a'')])
             \<lparr>Name = ''a'', Tags = []\<rparr>])"
    by (simp add: JsonObjectToUStruct_def CallPostJsonImportIfExists_def
          detector_defs item_engine_defs item_type_defs)
  from import_hook_called_once_after_mapping [OF Item_detected(1) run] show ?thesis
    using run by (auto simp: Item_detected)
qed

section \<open>Encoding to an object\<close>

text \<open>
  C2: for every struct type, if the generic converter called by \<^verbatim>\<open>UStructToJsonObject\<close>
  yields the null pointer, the operation returns the null pointer at once and
  \<^verbatim>\<open>PostJsonExport\<close> is not invoked.
\<close>

theorem export_failure_skips_export_hook:
  assumes "Converter_UStructToJsonObject E InStruct = None"
  shows "UStructToJsonObject T E InStruct = (None, [Call_Converter_UStructToJsonObject InStruct])
         \<and> filter is_export_hook_call (snd (UStructToJsonObject T E InStruct)) = []"
  using assms by (simp add: UStructToJsonObject_def)

theorem export_failure_skips_export_hook_witness:
  "THasPostJsonExport Item
   \<and> Converter_UStructToJsonObject BrokenEngine item_a = None
   \<and> UStructToJsonObject Item BrokenEngine item_a
       = (None, [Call_Converter_UStructToJsonObject item_a])"
proof -
  have h: "Converter_UStructToJsonObject BrokenEngine item_a = None"
    by (simp add: item_engine_defs)
  from export_failure_skips_export_hook [OF h, of Item] show ?thesis
    using h by (simp add: Item_detected)
qed

section \<open>Struct types without hooks\<close>

text \<open>
  C3: for a struct type for which neither detector finds a hook, \<^verbatim>\<open>JsonObjectToUStruct\<close>
  and \<^verbatim>\<open>UStructToJsonObject\<close> give the result and the struct of the generic converter
  alone and call nothing else; the one addition is the guard of the decoder, which returns
  false on the null pointer and leaves the struct as it is.
\<close>

theorem no_hooks_pass_through:
  assumes "\<not> THasPostJsonImport T" and "\<not> THasPostJsonExport T"
  shows "JsonObjectToUStruct T E (Some j) OutStruct =
           (fst (Converter_JsonObjectToUStruct E j OutStruct),
            snd (Converter_JsonObjectToUStruct E j OutStruct),
            [Call_Converter_JsonObjectToUStruct j OutStruct])
         \<and> JsonObjectToUStruct T E None OutStruct = (False, OutStruct, [])
         \<and> UStructToJsonObject T E InStruct =
           (Converter_UStructToJsonObject E InStruct,
            [Call_Converter_UStructToJsonObject InStruct])"
  using assms
  by (simp add: JsonObjectToUStruct_def CallPostJsonImportIfExists_def UStructToJsonObject_eq
           split: prod.splits option.splits)

theorem no_hooks_pass_through_witness:
  "\<not> THasPostJsonImport PlainItem \<and> \<not> THasPostJsonExport PlainItem
   \<and> JsonObjectToUStruct PlainItem ItemEngine
        (Some [(''tags'', Json_Array [''x'', ''y'']), (''name'', Json_String ''a'')]) item_default
       = (True, \<lparr>Name = ''a'', Tags = []\<rparr>,
          [Call_Converter_JsonObjectToUStruct
             [(''tags'', Json_Array [''x'', ''y'']), (''name'', Json_String ''a'')] item_default])
   \<and> UStructToJsonObject PlainItem ItemEngine item_a
       = (Some [(''name'', Json_String ''a'')], [Call_Converter_UStructToJsonObject item_a])"
  using no_hooks_pass_through [OF PlainItem_not_detected, of ItemEngine
      "[(''tags'', Json_Array [''x'', ''y'']), (''name'', Json_String ''a'')]" item_default item_a]
  by (simp add: PlainItem_not_detected item_engine_defs)

section \<open>The result of encoding to an object\<close>

text \<open>
  C5, as amended: when the generic converter yields an object, the result of
  \<^verbatim>\<open>UStructToJsonObject\<close> is what \<^verbatim>\<open>PostJsonExport\<close> returns for it if the hook is
  detected, and that object otherwise. The result is the null pointer exactly when the
  generic converter yields the null pointer or the detected export hook returns it.
\<close>

theorem UStructToJsonObject_result:
  "fst (UStructToJsonObject T E InStruct) =
     (case Converter_UStructToJsonObject E InStruct of
        None \<Rightarrow> None
      | Some j \<Rightarrow> if THasPostJsonExport T then PostJsonExport T InStruct (Some j) else Some j)
   \<and> (fst (UStructToJsonObject T E InStruct) = None \<longleftrightarrow>
        Converter_UStructToJsonObject E InStruct = None
        \<or> (THasPostJsonExport T
            \<and> PostJsonExport T InStruct (Converter_UStructToJsonObject E InStruct) = None))"
  by (auto simp: UStructToJsonObject_eq split: option.splits)

theorem UStructToJsonObject_result_witness:
  "fst (UStructToJsonObject Item ItemEngine item_a)
     = Some [(''tags'', Json_Array [''x'', ''y'']), (''name'', Json_String ''a'')]
   \<and> fst (UStructToJsonObject PlainItem ItemEngine item_a) = Some [(''name'', Json_String ''a'')]
   \<and> fst (UStructToJsonObject Item BrokenEngine item_a) = None
   \<and> fst (UStructToJsonObject NullExportItem ItemEngine item_a) = None"
  using UStructToJsonObject_result [of Item ItemEngine item_a]
    UStructToJsonObject_result [of PlainItem ItemEngine item_a]
    UStructToJsonObject_result [of Item BrokenEngine item_a]
    UStructToJsonObject_result [of NullExportItem ItemEngine item_a]
  by (simp add: detector_defs item_engine_defs item_type_defs)

text \<open>
  C5 as stated, that the failure of the generic converter is the only source of a null
  result, fails for an export hook that returns the null pointer: the generic
  converter yields an object and the result is null.
\<close>

theorem null_export_hook_counterexample:
  "THasPostJsonExport NullExportItem
   \<and> Converter_UStructToJsonObject ItemEngine item_a = Some [(''name'', Json_String ''a'')]
   \<and> UStructToJsonObject NullExportItem ItemEngine item_a
       = (None, [Call_Converter_UStructToJsonObject item_a,
                 Call_PostJsonExport item_a (Some [(''name'', Json_String ''a'')])])"
  by (simp add: UStructToJsonObject_eq detector_defs item_engine_defs item_type_defs)

text \<open>
  C9: when the detected export hook returns the null pointer for the object of the generic
  converter, \<^verbatim>\<open>UStructToJsonObject\<close> returns that null pointer, and
  \<^verbatim>\<open>UStructToJsonString\<close> returns false, leaves \<^verbatim>\<open>OutJsonString\<close> as it was and does
  not call the text writer: the calls made are the generic converter's and the hook's.
\<close>

theorem null_export_hook_fails_encoding:
  assumes "THasPostJsonExport T"
    and "Converter_UStructToJsonObject E InStruct = Some j"
    and "PostJsonExport T InStruct (Some j) = None"
  shows "UStructToJsonObject T E InStruct
           = (None, [Call_Converter_UStructToJsonObject InStruct,
                     Call_PostJsonExport InStruct (Some j)])
         \<and> UStructToJsonString T E InStruct OutJsonString
           = (False, OutJsonString,
              [Call_Converter_UStructToJsonObject InStruct,
               Call_PostJsonExport InStruct (Some j)])"
  using assms by (simp add: UStructToJsonString_def UStructToJsonObject_eq)

theorem null_export_hook_fails_encoding_witness:
  "THasPostJsonExport NullExportItem
   \<and> Converter_UStructToJsonObject ItemEngine item_a = Some [(''name'', Json_String ''a'')]
   \<and> PostJsonExport NullExportItem item_a (Some [(''name'', Json_String ''a'')]) = None
   \<and> UStructToJsonString NullExportItem ItemEngine item_a ''old''
       = (False, ''old'',
          [Call_Converter_UStructToJsonObject item_a,
           Call_PostJsonExport item_a (Some [(''name'', Json_String ''a'')])])"
proof -
  have a: "Converter_UStructToJsonObject ItemEngine item_a = Some [(''name'', Json_String ''a'')]"
    by (simp add: item_engine_defs)
  have b: "PostJsonExport NullExportItem item_a (Some [(''name'', Json_String ''a'')]) = None"
    by (simp add: item_type_defs)
  from null_export_hook_fails_encoding [OF NullExportItem_detected(2) a b, of "''old''"]
  show ?thesis using a b by (simp add: NullExportItem_detected)
qed

section \<open>Encoding to text and decoding from text\<close>

text \<open>
  C7: when \<^verbatim>\<open>UStructToJsonObject\<close> yields the null pointer, \<^verbatim>\<open>UStructToJsonString\<close>
  returns false, leaves \<^verbatim>\<open>OutJsonString\<close> as it was and does not call the text writer.
  Otherwise it calls the text writer on the object and returns the flag and the text of the
  writer.
\<close>

theorem UStructToJsonString_propagates:
  "(fst (UStructToJsonObject T E InStruct) = None \<longrightarrow>
      UStructToJsonString T E InStruct OutJsonString
        = (False, OutJsonString, snd (UStructToJsonObject T E InStruct))
      \<and> filter is_serialize_call (snd (snd (UStructToJsonString T E InStruct OutJsonString))) = [])
   \<and> (fst (UStructToJsonObject T E InStruct) = Some j \<longrightarrow>
      UStructToJsonString T E InStruct OutJsonString
        = (fst (Serializer_Serialize E j OutJsonString),
           snd (Serializer_Serialize E j OutJsonString),
           snd (UStructToJsonObject T E InStruct) @ [Call_Serialize j OutJsonString]))"
  by (cases "UStructToJsonObject T E InStruct")
     (use UStructToJsonObject_never_serializes [of T E InStruct] in
        \<open>auto simp: UStructToJsonString_def split: prod.splits\<close>)

theorem UStructToJsonString_propagates_witness:
  \<open>fst (UStructToJsonObject Item BrokenEngine item_a) = None
   \<and> UStructToJsonString Item BrokenEngine item_a ''old''
       = (False, ''old'', [Call_Converter_UStructToJsonObject item_a])
   \<and> fst (UStructToJsonObject Item ItemEngine item_a)
       = Some [(''tags'', Json_Array [''x'', ''y'']), (''name'', Json_String ''a'')]
   \<and> UStructToJsonString Item ItemEngine item_a ''old''
       = (True, ''{"name":"a","tags":["x","y"]}'',
          [Call_Converter_UStructToJsonObject item_a,
           Call_PostJsonExport item_a (Some [(''name'', Json_String ''a'')]),
           Call_Serialize [(''tags'', Json_Array [''x'', ''y'']), (''name'', Json_String ''a'')]
             ''old''])
   \<and> fst (UStructToJsonObject PlainItem ItemEngine item_default)
       = Some [(''name'', Json_String [])]
   \<and> UStructToJsonString PlainItem ItemEngine item_default ''old''
       = (False, ''old'',
          [Call_Converter_UStructToJsonObject item_default,
           Call_Serialize [(''name'', Json_String [])] ''old''])\<close>
proof -
  have a: "fst (UStructToJsonObject Item BrokenEngine item_a) = None"
    by (simp add: UStructToJsonObject_eq detector_defs item_engine_defs item_type_defs)
  have b: "fst (UStructToJsonObject Item ItemEngine item_a)
       = Some [(''tags'', Json_Array [''x'', ''y'']), (''name'', Json_String ''a'')]"
    by (simp add: UStructToJsonObject_eq detector_defs item_engine_defs item_type_defs)
  have c: "fst (UStructToJsonObject PlainItem ItemEngine item_default)
       = Some [(''name'', Json_String [])]"
    by (simp add: UStructToJsonObject_eq detector_defs item_engine_defs item_type_defs)
  show ?thesis
    using a b c
      UStructToJsonString_propagates [where T = Item and E = BrokenEngine
         and InStruct = item_a and OutJsonString = "''old''"]
      UStructToJsonString_propagates [where T = Item and E = ItemEngine
         and InStruct = item_a and OutJsonString = "''old''"
         and j = "[(''tags'', Json_Array [''x'', ''y'']), (''name'', Json_String ''a'')]"]
      UStructToJsonString_propagates [where T = PlainItem and E = ItemEngine
         and InStruct = item_default and OutJsonString = "''old''"
         and j = "[(''name'', Json_String [])]"]
    by (simp add: UStructToJsonObject_eq detector_defs item_engine_defs item_type_defs)
qed



section \<open>The round trip\<close>

text \<open>
  C4, as amended: let the import hook be the exact inverse of the export hook with respect
  to the fields the hooks manage, let the parser read back what the writer wrote, let the
  generic converter restore the declared fields from the object it produced, and also from
  the object that the export hook returns for it. Then for every struct \<open>x\<close> that
  \<^verbatim>\<open>UStructToJsonString\<close> encodes with success, \<^verbatim>\<open>JsonStringToUStruct\<close> on the text
  produced succeeds and leaves \<open>x\<close>, whatever the struct held before.
\<close>

theorem roundtrip_law:
  assumes inv: "hooks_inverse T declared"
    and codec: "codec_roundtrip E"
    and mapper: "mapper_roundtrip E declared"
    and keeps: "export_keeps_declared T E declared"
    and enc: "UStructToJsonString T E x OutJsonString = (True, text, calls)"
  shows "fst (JsonStringToUStruct T E text OutStruct)
         \<and> fst (snd (JsonStringToUStruct T E text OutStruct)) = x"
proof -
  from inv have imp: "THasPostJsonImport T" and exp: "THasPostJsonExport T"
    by (simp_all add: hooks_inverse_def)
  from enc obtain j where gen: "Converter_UStructToJsonObject E x = Some j"
    by (cases "Converter_UStructToJsonObject E x")
       (auto simp: UStructToJsonString_def UStructToJsonObject_eq)
  from enc gen exp obtain j' where hook: "PostJsonExport T x (Some j) = Some j'"
    by (cases "PostJsonExport T x (Some j)")
       (auto simp: UStructToJsonString_def UStructToJsonObject_eq)
  from enc gen exp hook have "Serializer_Serialize E j' OutJsonString = (True, text)"
    by (auto simp: UStructToJsonString_def UStructToJsonObject_eq split: prod.splits)
  with codec have parsed: "Serializer_Deserialize E text = (True, Some j')"
    by (simp add: codec_roundtrip_def)
  obtain ok Mapped where conv: "Converter_JsonObjectToUStruct E j' OutStruct = (ok, Mapped)"
    by (cases "Converter_JsonObjectToUStruct E j' OutStruct")
  from keeps gen hook have "fst (Converter_JsonObjectToUStruct E j' OutStruct)"
    and "declared (snd (Converter_JsonObjectToUStruct E j' OutStruct)) = declared x"
    unfolding export_keeps_declared_def by blast+
  with conv have ok: "ok" and decl: "declared Mapped = declared x"
    by simp_all
  from inv hook decl have "PostJsonImport T (Some j') Mapped = x"
    unfolding hooks_inverse_def by blast
  with parsed conv ok imp show ?thesis
    by (simp add: JsonStringToUStruct_def JsonObjectToUStruct_def
          CallPostJsonImportIfExists_def)
qed

theorem roundtrip_law_witness:
  \<open>hooks_inverse Item Name \<and> codec_roundtrip ItemEngine \<and> mapper_roundtrip ItemEngine Name
   \<and> export_keeps_declared Item ItemEngine Name
   \<and> fst (UStructToJsonString Item ItemEngine item_a [])
   \<and> fst (snd (UStructToJsonString Item ItemEngine item_a [])) = ''{"name":"a","tags":["x","y"]}''
   \<and> fst (JsonStringToUStruct Item ItemEngine ''{"name":"a","tags":["x","y"]}'' item_default)
   \<and> fst (snd (JsonStringToUStruct Item ItemEngine ''{"name":"a","tags":["x","y"]}''
        item_default)) = item_a\<close>
  using roundtrip_law [OF Item_hooks_inverse ItemEngine_codec_roundtrip
      ItemEngine_mapper_roundtrip Item_export_keeps_declared encode_item_a, of item_default]
    Item_hooks_inverse ItemEngine_codec_roundtrip ItemEngine_mapper_roundtrip
    Item_export_keeps_declared encode_item_a
  by simp

text \<open>
  C4 as stated, without the condition on the object that the export hook returns, fails. The
  export hook of \<open>FreshExportItem\<close> returns a new object with the managed field alone;
  the import hook is its exact inverse with respect to that field, and parser and generic
  converter are as the law asks. The text encoded from \<open>item_a\<close> decodes with success,
  to a struct with the tags of \<open>item_a\<close> and without its name.
\<close>

theorem roundtrip_counterexample:
  \<open>hooks_inverse FreshExportItem Name \<and> codec_roundtrip ItemEngine
   \<and> mapper_roundtrip ItemEngine Name
   \<and> UStructToJsonString FreshExportItem ItemEngine item_a [] =
       (True, ''{"tags":["x","y"]}'',
        [Call_Converter_UStructToJsonObject item_a,
         Call_PostJsonExport item_a (Some [(''name'', Json_String ''a'')]),
         Call_Serialize [(''tags'', Json_Array [''x'', ''y''])] []])
   \<and> JsonStringToUStruct FreshExportItem ItemEngine ''{"tags":["x","y"]}'' item_default =
       (True, \<lparr>Name = [], Tags = [''x'', ''y'']\<rparr>,
        [Call_Deserialize ''{"tags":["x","y"]}'',
         Call_Converter_JsonObjectToUStruct [(''tags'', Json_Array [''x'', ''y''])] item_default,
         Call_PostJsonImport (Some [(''tags'', Json_Array [''x'', ''y''])]) item_default])
   \<and> \<lparr>Name = [], Tags = [''x'', ''y'']\<rparr> \<noteq> item_a\<close>
proof -
  have enc: \<open>UStructToJsonString FreshExportItem ItemEngine item_a [] =
       (True, ''{"tags":["x","y"]}'',
        [Call_Converter_UStructToJsonObject item_a,
         Call_PostJsonExport item_a (Some [(''name'', Json_String ''a'')]),
         Call_Serialize [(''tags'', Json_Array [''x'', ''y''])] []])\<close>
    by (simp add: UStructToJsonString_def UStructToJsonObject_eq detector_defs
          item_engine_defs item_type_defs)
  have dec: \<open>JsonStringToUStruct FreshExportItem ItemEngine ''{"tags":["x","y"]}'' item_default =
       (True, \<lparr>Name = [], Tags = [''x'', ''y'']\<rparr>,
        [Call_Deserialize ''{"tags":["x","y"]}'',
         Call_Converter_JsonObjectToUStruct [(''tags'', Json_Array [''x'', ''y''])] item_default,
         Call_PostJsonImport (Some [(''tags'', Json_Array [''x'', ''y''])]) item_default])\<close>
    by (simp add: JsonStringToUStruct_def JsonObjectToUStruct_def
          CallPostJsonImportIfExists_def detector_defs item_engine_defs item_type_defs)
  have ne: "\<lparr>Name = [], Tags = [''x'', ''y'']\<rparr> \<noteq> item_a"
    by (simp add: item_a_def)
  from FreshExportItem_hooks_inverse ItemEngine_codec_roundtrip ItemEngine_mapper_roundtrip
    enc dec ne
  show ?thesis by blast
qed

section \<open>What the detectors detect\<close>




end
